theory Spec2Isabelle
  imports Complex_Main "HOL-Library.AList" "HOL-Library.Sublist"
begin

section \<open>Python values used by \<open>app.py\<close>\<close>

text \<open>
  A Python \<open>str\<close> is a sequence of Unicode code points, so it is modelled as a list of
  natural numbers; \<open>pystr_of\<close> embeds the ASCII literals of the source. A value of the
  \<open>inputs\<close> dictionary is either \<open>None\<close> or a \<open>str\<close>; the dictionary itself is a
  finite map, and \<open>inputs.get(k)\<close> of a missing key is \<open>None\<close>.
\<close>

type_synonym pystr = "nat list"

definition pystr_of :: "string \<Rightarrow> pystr" where
  "pystr_of s = map of_char s"

datatype pyval = PyNone | PyStr pystr

type_synonym pydict = "pystr \<rightharpoonup> pyval"

datatype error = KeyError pystr | ZeroDivisionError

text \<open>
  The methods \<open>str.strip\<close>, \<open>str.lower\<close> and the classes \<open>\w\<close>, \<open>\S\<close> of \<open>re\<close>
  read the Unicode character database of the interpreter, which is no part of the
  program. The database is a parameter of every function that uses it:
  \<open>str_isspace\<close> is \<open>str.isspace\<close> on one code point (also the class \<open>\s\<close>),
  \<open>re_word\<close> is the class \<open>\w\<close>, \<open>str_lower\<close> is \<open>str.lower\<close> on a whole string
  (lower-casing is context dependent and may change the length).
\<close>

record unicode_db =
  str_isspace :: "nat \<Rightarrow> bool"
  re_word :: "nat \<Rightarrow> bool"
  str_lower :: "pystr \<Rightarrow> pystr"

text \<open>\<open>s.strip()\<close>: drop the leading and the trailing whitespace.\<close>

definition strip :: "unicode_db \<Rightarrow> pystr \<Rightarrow> pystr" where
  "strip db s = rev (dropWhile (str_isspace db) (rev (dropWhile (str_isspace db) s)))"

text \<open>
  The tables of CPython 3 for the code points below 256. The whitespace list is the full
  list of \<open>str.isspace\<close>; a code point from 256 on is taken as a caseless symbol that
  is no word character, which is what it is for the symbols used below (U+201A, U+2192).
  These tables only serve to evaluate the functions on concrete inputs.
\<close>

definition cpython_isspace :: "nat \<Rightarrow> bool" where
  "cpython_isspace c =
     ((9 \<le> c \<and> c \<le> 13) \<or> (28 \<le> c \<and> c \<le> 32) \<or> c = 133 \<or> c = 160 \<or> c = 5760 \<or>
      (8192 \<le> c \<and> c \<le> 8202) \<or> c = 8232 \<or> c = 8233 \<or> c = 8239 \<or> c = 8287 \<or> c = 12288)"

definition latin1_word :: "nat \<Rightarrow> bool" where
  "latin1_word c =
     ((48 \<le> c \<and> c \<le> 57) \<or> (65 \<le> c \<and> c \<le> 90) \<or> c = 95 \<or> (97 \<le> c \<and> c \<le> 122) \<or>
      c = 170 \<or> c = 178 \<or> c = 179 \<or> c = 181 \<or> c = 185 \<or> c = 186 \<or>
      (188 \<le> c \<and> c \<le> 190) \<or> (192 \<le> c \<and> c \<le> 214) \<or> (216 \<le> c \<and> c \<le> 246) \<or>
      (248 \<le> c \<and> c \<le> 255))"

definition latin1_lower :: "nat \<Rightarrow> nat" where
  "latin1_lower c =
     (if (65 \<le> c \<and> c \<le> 90) \<or> (192 \<le> c \<and> c \<le> 214) \<or> (216 \<le> c \<and> c \<le> 222)
      then c + 32 else c)"

definition latin1_db :: unicode_db where
  "latin1_db =
     \<lparr>str_isspace = cpython_isspace, re_word = latin1_word, str_lower = map latin1_lower\<rparr>"

text \<open>
  \<open>inputs.get(k) or rest\<close>: the value under \<open>k\<close> when it is a non-empty string, otherwise
  \<open>rest\<close> (a missing key, \<open>None\<close> and the empty string are all falsy).
\<close>

definition get_or :: "pydict \<Rightarrow> pystr \<Rightarrow> pystr \<Rightarrow> pystr" where
  "get_or inputs k rest =
     (case inputs k of
        None \<Rightarrow> rest
      | Some PyNone \<Rightarrow> rest
      | Some (PyStr s) \<Rightarrow> if s \<noteq> [] then s else rest)"

text \<open>\<open>sep.join(parts)\<close>.\<close>

fun join :: "pystr \<Rightarrow> pystr list \<Rightarrow> pystr" where
  "join sep [] = []"
| "join sep [p] = p"
| "join sep (p # q # ps) = p @ sep @ join sep (q # ps)"

section \<open>Framework templates and prompt generation\<close>

definition FRAMEWORKS :: "(pystr \<times> pystr list) list" where
  "FRAMEWORKS =
     [(pystr_of ''CO-STAR'',
         map pystr_of [''Context'', ''Objective'', ''Style'', ''Tone'', ''Audience'', ''Response'']),
      (pystr_of ''CRISPE'',
         map pystr_of [''Capacity/Constraints'', ''Role'', ''Insight/Context'', ''Steps'',
                       ''Persona'', ''Evaluation'']),
      (pystr_of ''CLEAR'',
         map pystr_of [''Context'', ''Language'', ''Examples'', ''Analysis/Thinking Style'',
                       ''Restrictions'']),
      (pystr_of ''Basic (Context-Objective-Constraints-Examples-Output)'',
         map pystr_of [''Context'', ''Objective'', ''Constraints'', ''Examples'',
                       ''Output Format''])]"

text \<open>The body of the loop of \<open>generate_prompt\<close>: the part appended for one field.\<close>

definition prompt_part :: "unicode_db \<Rightarrow> pydict \<Rightarrow> pystr \<Rightarrow> pystr" where
  "prompt_part db inputs field =
     (let val = strip db (get_or inputs field []);
          val = (if val = [] then pystr_of ''Not specified'' else val)
      in pystr_of ''**'' @ field @ pystr_of '':** '' @ val)"

text \<open>
  \<open>FRAMEWORKS[framework]\<close> raises \<open>KeyError\<close> for a key that is not in the table; the
  parts are joined with two newlines (code point 10).
\<close>

definition generate_prompt :: "unicode_db \<Rightarrow> pystr \<Rightarrow> pydict \<Rightarrow> error + pystr" where
  "generate_prompt db framework inputs =
     (case map_of FRAMEWORKS framework of
        None \<Rightarrow> Inl (KeyError framework)
      | Some labels \<Rightarrow> Inr (join [10, 10] (map (prompt_part db inputs) labels)))"

section \<open>Scoring and rubric\<close>

text \<open>
  The weights are Python floats with one decimal digit; they are modelled by the
  rationals they denote, and the arithmetic of the score is exact. The dictionary
  keeps its insertion order, so it is an association list.
\<close>

definition RUBRIC_WEIGHTS :: "(string \<times> rat) list" where
  "RUBRIC_WEIGHTS =
     [(''objective_present'', 15 / 10),
      (''context_present'', 10 / 10),
      (''constraints_present'', 10 / 10),
      (''examples_present'', 8 / 10),
      (''output_format_present'', 7 / 10),
      (''objective_quality'', 12 / 10),
      (''constraints_quality'', 10 / 10),
      (''examples_quality'', 8 / 10),
      (''format_quality'', 8 / 10),
      (''ambiguity_low'', 10 / 10)]"

text \<open>
  \<open>re.findall(r"\w+|\S", text)\<close>: scanning from the left, a maximal run of word
  characters is one match, any other character that is no whitespace is a match of its
  own, and whitespace is skipped.
\<close>

function re_findall_tokens :: "unicode_db \<Rightarrow> pystr \<Rightarrow> pystr list" where
  "re_findall_tokens db [] = []"
| "re_findall_tokens db (c # cs) =
     (if re_word db c
      then (c # takeWhile (re_word db) cs) # re_findall_tokens db (dropWhile (re_word db) cs)
      else if \<not> str_isspace db c then [c] # re_findall_tokens db cs
      else re_findall_tokens db cs)"
  by pat_completeness auto
termination
  by (relation "measure (\<lambda>(db, cs). length cs)")
     (auto simp: length_dropWhile_le less_Suc_eq_le)

definition len_tokens :: "unicode_db \<Rightarrow> pystr \<Rightarrow> nat" where
  "len_tokens db text = (if text = [] then 0 else length (re_findall_tokens db text))"

text \<open>
  \<open>k.lower() in t\<close> is the test for a contiguous sublist, \<open>sublist\<close> of the library.
\<close>

definition has_any :: "unicode_db \<Rightarrow> pystr \<Rightarrow> pystr list \<Rightarrow> bool" where
  "has_any db text keywords =
     (if text = [] then False
      else let t = str_lower db text in list_ex (\<lambda>k. sublist (str_lower db k) t) keywords)"

text \<open>
  \<open>t.count(sub)\<close>: the number of occurrences of \<open>sub\<close> in \<open>t\<close> that do not overlap,
  found from the left; the empty string occurs \<open>len(t) + 1\<close> times.
\<close>

function str_count :: "pystr \<Rightarrow> pystr \<Rightarrow> nat" where
  "str_count t sub =
     (if sub = [] then length t + 1
      else if t = [] then 0
      else if prefix sub t then 1 + str_count (drop (length sub) t) sub
      else str_count (tl t) sub)"
  by pat_completeness auto
termination
  by (relation "measure (\<lambda>(t, sub). length t)") auto

definition count_any :: "unicode_db \<Rightarrow> pystr \<Rightarrow> pystr list \<Rightarrow> nat" where
  "count_any db text keywords =
     (if text = [] then 0
      else let t = str_lower db text in sum_list (map (\<lambda>k. str_count t (str_lower db k)) keywords))"

text \<open>
  \<open>round(x, 1)\<close>: the nearest multiple of one tenth, a tie going to the even multiple.
\<close>

definition round1 :: "rat \<Rightarrow> rat" where
  "round1 x =
     (let y = x * 10; f = \<lfloor>y\<rfloor>; d = y - of_int f
      in of_int (if d < 1 / 2 then f else if 1 / 2 < d then f + 1
                 else if even f then f else f + 1) / 10)"

subsection \<open>The five slots (lines 74 to 78)\<close>

definition ctx_of :: "unicode_db \<Rightarrow> pydict \<Rightarrow> pystr" where
  "ctx_of db inputs =
     strip db (get_or inputs (pystr_of ''Context'')
                (get_or inputs (pystr_of ''Insight/Context'') []))"

definition obj_of :: "unicode_db \<Rightarrow> pydict \<Rightarrow> pystr" where
  "obj_of db inputs = strip db (get_or inputs (pystr_of ''Objective'') [])"

definition cons_of :: "unicode_db \<Rightarrow> pydict \<Rightarrow> pystr" where
  "cons_of db inputs =
     strip db (get_or inputs (pystr_of ''Constraints'')
                (get_or inputs (pystr_of ''Capacity/Constraints'')
                  (get_or inputs (pystr_of ''Restrictions'') [])))"

definition ex_of :: "unicode_db \<Rightarrow> pydict \<Rightarrow> pystr" where
  "ex_of db inputs = strip db (get_or inputs (pystr_of ''Examples'') [])"

definition fmt_of :: "unicode_db \<Rightarrow> pydict \<Rightarrow> pystr" where
  "fmt_of db inputs = strip db (get_or inputs (pystr_of ''Output Format'') [])"

subsection \<open>The checks (lines 80 to 111)\<close>

definition action_verbs :: "pystr list" where
  "action_verbs = map pystr_of [''analyze'', ''summarize'', ''compare'', ''design'', ''draft'',
     ''generate'', ''evaluate'', ''classify'', ''extract'']"

definition guardrail_terms :: "pystr list" where
  "guardrail_terms = map pystr_of [''cite'', ''do not'', ''avoid'', ''limit'', ''word'', ''tone'',
     ''comply'', ''policy'', ''no chain-of-thought'', ''refuse'']"

text \<open>
  The fifth marker of the source file is \<open>context\<close>, a space, the code points U+201A,
  U+00DC, U+00ED, a space, \<open>response\<close>.
\<close>

definition example_markers :: "pystr list" where
  "example_markers =
     [pystr_of ''input:'', pystr_of ''output:'', pystr_of ''example'', pystr_of ''shot'',
      pystr_of ''context '' @ [8218, 220, 237] @ pystr_of '' response'',
      pystr_of ''instruction:'', pystr_of ''response:'']"

definition json_markers :: "pystr list" where
  "json_markers = map pystr_of [''{'', ''}'', ''json'', ''keys'', ''schema'']"

definition section_markers :: "pystr list" where
  "section_markers = map pystr_of [''bullet'', ''markdown'', ''sections'', ''executive summary'',
     ''findings'', ''recommendations'']"

definition vague_terms :: "pystr list" where
  "vague_terms = map pystr_of [''tbd'', ''etc.'', ''and so on'', ''something like'', ''roughly'',
     ''maybe'', ''as needed'']"

type_synonym checks_dict = "(string \<times> bool) list"

text \<open>
  An assignment \<open>checks[k] = v\<close> is \<open>AList.update\<close>: a new key goes to the end.
\<close>

definition build_checks :: "unicode_db \<Rightarrow> pydict \<Rightarrow> checks_dict" where
  "build_checks db inputs =
     (let ctx = ctx_of db inputs;
          obj = obj_of db inputs;
          cons = cons_of db inputs;
          ex = ex_of db inputs;
          fmt = fmt_of db inputs;
          chks = [(''objective_present'', obj \<noteq> []),
                  (''context_present'', ctx \<noteq> []),
                  (''constraints_present'', cons \<noteq> []),
                  (''examples_present'', ex \<noteq> []),
                  (''output_format_present'', fmt \<noteq> [])];
          obj_len = len_tokens db obj;
          chks = AList.update ''objective_quality''
                   (8 \<le> obj_len \<and> has_any db obj action_verbs) chks;
          chks = AList.update ''constraints_quality''
                   (has_any db cons guardrail_terms \<or> 6 \<le> len_tokens db cons) chks;
          chks = AList.update ''examples_quality''
                   (has_any db ex example_markers \<or>
                    (2 \<le> count_any db ex [pystr_of '':''] \<and> 12 \<le> len_tokens db ex)) chks;
          chks = AList.update ''format_quality''
                   (has_any db fmt (json_markers @ section_markers)) chks;
          high_ambiguity = has_any db (obj @ pystr_of '' '' @ ctx) vague_terms;
          chks = AList.update ''ambiguity_low'' (\<not> high_ambiguity) chks
      in chks)"

subsection \<open>Score aggregation (lines 113 to 116)\<close>

definition bind_err :: "error + 'a \<Rightarrow> ('a \<Rightarrow> error + 'b) \<Rightarrow> error + 'b" where
  "bind_err m f = (case m of Inl e \<Rightarrow> Inl e | Inr x \<Rightarrow> f x)"

text \<open>\<open>RUBRIC_WEIGHTS[k]\<close> and \<open>checks[k]\<close> raise \<open>KeyError\<close> for a missing key.\<close>

definition weight_get :: "string \<Rightarrow> error + rat" where
  "weight_get k = (case map_of RUBRIC_WEIGHTS k of
                     None \<Rightarrow> Inl (KeyError (pystr_of k)) | Some w \<Rightarrow> Inr w)"

definition check_get :: "checks_dict \<Rightarrow> string \<Rightarrow> error + bool" where
  "check_get chks k = (case map_of chks k of
                         None \<Rightarrow> Inl (KeyError (pystr_of k)) | Some v \<Rightarrow> Inr v)"

text \<open>\<open>sum(RUBRIC_WEIGHTS[k] for k, v in checks.items() if v)\<close>.\<close>

fun sum_true_weights :: "checks_dict \<Rightarrow> error + rat" where
  "sum_true_weights [] = Inr 0"
| "sum_true_weights ((k, v) # items) =
     (if v then bind_err (weight_get k) (\<lambda>w.
                bind_err (sum_true_weights items) (\<lambda>s. Inr (w + s)))
      else sum_true_weights items)"

definition score_aggregation :: "checks_dict \<Rightarrow> error + rat" where
  "score_aggregation chks =
     (let max_score = sum_list (map snd RUBRIC_WEIGHTS)
      in bind_err (sum_true_weights chks) (\<lambda>raw.
           if max_score = 0 then Inl ZeroDivisionError
           else Inr (round1 (10 * raw / max_score))))"

subsection \<open>Suggestions (lines 118 to 143)\<close>

definition msg_objective_missing :: pystr where
  "msg_objective_missing =
     pystr_of ''Add a clear objective starting with a strong verb (e.g., *Analyze*, *Summarize*, '' @
     pystr_of ''*Design*).''"

definition msg_objective_vague :: pystr where
  "msg_objective_vague =
     pystr_of ''Make the objective more specific (scope, data, success criteria).''"

definition msg_context_missing :: pystr where
  "msg_context_missing =
     pystr_of ''Provide domain, audience, and key background constraints in **Context**.''"

definition msg_constraints_missing :: pystr where
  "msg_constraints_missing =
     pystr_of ''Add **Constraints** (tone, word/section limits, must/avoid, compliance/guardrails).''"

definition msg_constraints_loose :: pystr where
  "msg_constraints_loose =
     pystr_of ''Tighten **Constraints**: include style (e.g., *professional*), limits '' @
     pystr_of ''(e.g., *'' @ [8218, 226, 167] @
     pystr_of ''200 words*), and guardrails (*no chain-of-thought*, *cite sources*).''"

definition msg_examples_missing :: pystr where
  "msg_examples_missing =
     pystr_of ''Add 1'' @ [8218, 196, 236] @
     pystr_of ''2 **few-shot Examples** (clear *Input '' @ [8218, 220, 237] @
     pystr_of '' Output* pairs).''"

definition msg_examples_unlabelled :: pystr where
  "msg_examples_unlabelled =
     pystr_of ''Improve examples: label **Input:** and **Output:** and show the ideal '' @
     pystr_of ''structure.''"

definition msg_format_missing :: pystr where
  "msg_format_missing =
     pystr_of ''Specify an **Output Format** (e.g., bullet points or JSON with required '' @
     pystr_of ''keys).''"

definition msg_format_loose :: pystr where
  "msg_format_loose =
     pystr_of ''Refine format: define JSON keys or markdown sections (Executive Summary, '' @
     pystr_of ''Findings, Recommendations).''"

definition msg_ambiguity :: pystr where
  "msg_ambiguity =
     pystr_of ''Remove vague phrases (e.g., *TBD, etc.*) and state exact scope/assumptions.''"

text \<open>
  \<open>if not checks[k]: suggestions.append(msg)\<close>, and the same with an \<open>elif\<close> branch on
  a second key, which is read only when the first check is true.
\<close>

definition suggest_if_not :: "checks_dict \<Rightarrow> string \<Rightarrow> pystr \<Rightarrow> pystr list \<Rightarrow> error + pystr list" where
  "suggest_if_not chks k msg sugs =
     bind_err (check_get chks k) (\<lambda>v. Inr (if \<not> v then sugs @ [msg] else sugs))"

definition suggest_if_elif ::
  "checks_dict \<Rightarrow> string \<Rightarrow> pystr \<Rightarrow> string \<Rightarrow> pystr \<Rightarrow> pystr list \<Rightarrow> error + pystr list" where
  "suggest_if_elif chks k1 msg1 k2 msg2 sugs =
     bind_err (check_get chks k1) (\<lambda>v1.
       if \<not> v1 then Inr (sugs @ [msg1])
       else bind_err (check_get chks k2) (\<lambda>v2. Inr (if \<not> v2 then sugs @ [msg2] else sugs)))"

definition build_suggestions :: "checks_dict \<Rightarrow> error + pystr list" where
  "build_suggestions chks =
     bind_err (suggest_if_elif chks ''objective_present'' msg_objective_missing
                 ''objective_quality'' msg_objective_vague []) (\<lambda>sugs.
     bind_err (suggest_if_not chks ''context_present'' msg_context_missing sugs) (\<lambda>sugs.
     bind_err (suggest_if_elif chks ''constraints_present'' msg_constraints_missing
                 ''constraints_quality'' msg_constraints_loose sugs) (\<lambda>sugs.
     bind_err (suggest_if_elif chks ''examples_present'' msg_examples_missing
                 ''examples_quality'' msg_examples_unlabelled sugs) (\<lambda>sugs.
     bind_err (suggest_if_elif chks ''output_format_present'' msg_format_missing
                 ''format_quality'' msg_format_loose sugs) (\<lambda>sugs.
     suggest_if_not chks ''ambiguity_low'' msg_ambiguity sugs)))))"

subsection \<open>The auditor\<close>

record audit_result =
  score_out_of_10 :: rat
  checks :: checks_dict
  suggestions :: "pystr list"

definition score_inputs :: "unicode_db \<Rightarrow> pydict \<Rightarrow> error + audit_result" where
  "score_inputs db inputs =
     (let chks = build_checks db inputs
      in bind_err (score_aggregation chks) (\<lambda>score_10.
         bind_err (build_suggestions chks) (\<lambda>sugs.
           Inr \<lparr>score_out_of_10 = score_10, checks = chks, suggestions = sugs\<rparr>)))"

subsection \<open>Reading the aggregation\<close>

text \<open>
  The value of \<open>sum_true_weights\<close> when no lookup fails, as a plain sum over the
  items of the dictionary.
\<close>

definition raw_of :: "checks_dict \<Rightarrow> rat" where
  "raw_of chks = (\<Sum>(k, v) \<leftarrow> chks. if v then the (map_of RUBRIC_WEIGHTS k) else 0)"

text \<open>
  The sum as the specification words it: over the rubric table, the weights of the checks
  whose outcome is true.
\<close>

definition true_weight_sum :: "checks_dict \<Rightarrow> rat" where
  "true_weight_sum chks =
     (\<Sum>(k, w) \<leftarrow> RUBRIC_WEIGHTS. if map_of chks k = Some True then w else 0)"

text \<open>
  The dictionary of checks that holds the outcomes \<open>bs\<close> for the ten checks, in the
  order in which \<open>score_inputs\<close> inserts them (the order of the rubric table).
\<close>

definition checks_of_bools :: "bool list \<Rightarrow> checks_dict" where
  "checks_of_bools bs = zip (map fst RUBRIC_WEIGHTS) bs"

subsection \<open>Reading the heuristics\<close>

text \<open>
  What \<open>str.lower\<close> does on ASCII text: only the letters A to Z change. A Unicode table
  agrees with it when its \<open>str_lower\<close> is this map on every string of code points
  below 128, as the one of CPython does.
\<close>

definition ascii_lower :: "nat \<Rightarrow> nat" where
  "ascii_lower c = (if 65 \<le> c \<and> c \<le> 90 then c + 32 else c)"

definition lower_agrees_on_ascii :: "unicode_db \<Rightarrow> bool" where
  "lower_agrees_on_ascii db =
     (\<forall>s. list_all (\<lambda>c. c < 128) s \<longrightarrow> str_lower db s = map ascii_lower s)"

text \<open>
  The marker list as the specification words it: the fifth marker is \<open>context\<close>, a
  space, the arrow U+2192, a space, \<open>response\<close>.
\<close>

definition spec_example_markers :: "pystr list" where
  "spec_example_markers =
     [pystr_of ''input:'', pystr_of ''output:'', pystr_of ''example'', pystr_of ''shot'',
      pystr_of ''context '' @ [8594] @ pystr_of '' response'',
      pystr_of ''instruction:'', pystr_of ''response:'']"

text \<open>
  The five quality checks, as the rubric table groups them under its comment on quality
  heuristics and as the specification lists them: \<open>ambiguity_low\<close> is the fifth.
\<close>

definition quality_checks :: "string list" where
  "quality_checks = [''objective_quality'', ''constraints_quality'', ''examples_quality'',
     ''format_quality'', ''ambiguity_low'']"

section \<open>Properties of prompt generation\<close>

lemma strip_Nil: "strip db [] = []"
  by (simp add: strip_def)

lemma prompt_part_empty:
  "prompt_part db Map.empty field = pystr_of ''**'' @ field @ pystr_of '':** Not specified''"
  by (simp add: prompt_part_def get_or_def strip_Nil pystr_of_def)

text \<open>
  C6: for the framework \<open>CO-STAR\<close> and the empty mapping the document consists of six
  segments \<open>**<label>:** Not specified\<close>, for the labels Context, Objective, Style, Tone,
  Audience, Response in this order, separated by one blank line (two newlines).
\<close>

theorem render_costar_empty:
  "generate_prompt db (pystr_of ''CO-STAR'') Map.empty =
     Inr (pystr_of ''**Context:** Not specified'' @ [10, 10] @
          pystr_of ''**Objective:** Not specified'' @ [10, 10] @
          pystr_of ''**Style:** Not specified'' @ [10, 10] @
          pystr_of ''**Tone:** Not specified'' @ [10, 10] @
          pystr_of ''**Audience:** Not specified'' @ [10, 10] @
          pystr_of ''**Response:** Not specified'')"
  by (simp add: generate_prompt_def FRAMEWORKS_def prompt_part_empty) (simp add: pystr_of_def)

text \<open>
  C7: for a framework identifier that is none of the four keys of \<open>FRAMEWORKS\<close>,
  whatever the field values, \<open>generate_prompt\<close> raises \<open>KeyError\<close> and returns no
  document at all.
\<close>

theorem render_unknown_framework:
  assumes "framework \<notin> {pystr_of ''CO-STAR'', pystr_of ''CRISPE'', pystr_of ''CLEAR'',
                        pystr_of ''Basic (Context-Objective-Constraints-Examples-Output)''}"
  shows "generate_prompt db framework inputs = Inl (KeyError framework) \<and>
         (\<forall>doc. generate_prompt db framework inputs \<noteq> Inr doc)"
  using assms by (simp add: generate_prompt_def FRAMEWORKS_def)

theorem render_unknown_framework_witness:
  "generate_prompt latin1_db (pystr_of ''RACE'')
     (Map.empty(pystr_of ''Context'' \<mapsto> PyStr (pystr_of ''Retail'')))
   = Inl (KeyError (pystr_of ''RACE''))"
  using render_unknown_framework [of "pystr_of ''RACE''" latin1_db
      "Map.empty(pystr_of ''Context'' \<mapsto> PyStr (pystr_of ''Retail''))"]
  by (simp add: pystr_of_def)

lemma prompt_part_cong:
  "inputs1 field = inputs2 field \<Longrightarrow> prompt_part db inputs1 field = prompt_part db inputs2 field"
  by (simp add: prompt_part_def get_or_def)

text \<open>
  C10: the document depends only on the values under the labels of the chosen
  framework: two mappings that agree on these labels give the same document, whatever
  they hold under other keys.
\<close>

theorem render_depends_on_own_labels:
  assumes "map_of FRAMEWORKS framework = Some labels"
    and "\<forall>l \<in> set labels. inputs1 l = inputs2 l"
  shows "generate_prompt db framework inputs1 = generate_prompt db framework inputs2"
proof -
  have parts: "map (prompt_part db inputs1) labels = map (prompt_part db inputs2) labels"
    using assms(2) by (intro map_cong refl prompt_part_cong) simp
  show ?thesis
    unfolding generate_prompt_def assms(1) option.case parts by (rule refl)
qed

theorem render_depends_on_own_labels_witness:
  "generate_prompt latin1_db (pystr_of ''CLEAR'')
     (Map.empty(pystr_of ''Context'' \<mapsto> PyStr (pystr_of ''Retail''),
                pystr_of ''Objective'' \<mapsto> PyStr (pystr_of ''Summarize'')))
   = generate_prompt latin1_db (pystr_of ''CLEAR'')
     (Map.empty(pystr_of ''Context'' \<mapsto> PyStr (pystr_of ''Retail''),
                pystr_of ''Tone'' \<mapsto> PyNone))"
  by (rule render_depends_on_own_labels
        [of "pystr_of ''CLEAR''"
            "map pystr_of [''Context'', ''Language'', ''Examples'', ''Analysis/Thinking Style'',
                           ''Restrictions'']"])
     (simp_all add: FRAMEWORKS_def pystr_of_def)

section \<open>Properties of the score\<close>

lemma round1_tenths: "\<exists>k::int. round1 x = of_int k / 10"
  unfolding round1_def Let_def by blast

lemma round1_near: "\<bar>round1 x - x\<bar> \<le> 1 / 20"
proof -
  define y where "y = x * 10"
  define f where "f = \<lfloor>y\<rfloor>"
  define d where "d = y - of_int f"
  define r where "r = (if d < 1 / 2 then f else if 1 / 2 < d then f + 1
                       else if even f then f else f + 1)"
  have d: "0 \<le> d" "d < 1"
    unfolding d_def f_def by linarith+
  have r: "round1 x = of_int r / 10"
    by (simp add: round1_def Let_def y_def f_def d_def r_def)
  have "\<bar>of_int r - y\<bar> \<le> 1 / 2"
    using d unfolding r_def d_def by (auto simp: abs_if)
  moreover have "round1 x - x = (of_int r - y) / 10"
    by (simp add: r y_def)
  ultimately show ?thesis
    by (simp add: abs_if split: if_splits)
qed

lemma round1_mono:
  assumes "x \<le> y" shows "round1 x \<le> round1 y"
proof (rule ccontr)
  assume "\<not> round1 x \<le> round1 y"
  then have lt: "round1 y < round1 x" by simp
  obtain i :: int where i: "round1 x = of_int i / 10" using round1_tenths by blast
  obtain j :: int where j: "round1 y = of_int j / 10" using round1_tenths by blast
  from lt have "j < i" by (simp add: i j)
  then have "j + 1 \<le> i" by simp
  then have "(of_int j :: rat) + 1 \<le> of_int i" by (metis of_int_1 of_int_add of_int_le_iff)
  then have gap: "round1 y + 1 / 10 \<le> round1 x" by (simp add: i j field_simps)
  have "round1 x - 1 / 20 \<le> x" using round1_near [of x] by linarith
  moreover have "y \<le> round1 y + 1 / 20" using round1_near [of y] by linarith
  ultimately have "y \<le> x" using gap by linarith
  with assms have "x = y" by simp
  with lt show False by simp
qed

lemma round1_0: "round1 0 = 0" by (simp add: round1_def)
lemma round1_10: "round1 10 = 10" by (simp add: round1_def)

lemma weight_get_known:
  "k \<in> fst ` set RUBRIC_WEIGHTS \<Longrightarrow> weight_get k = Inr (the (map_of RUBRIC_WEIGHTS k))"
  by (auto simp: weight_get_def map_of_eq_None_iff split: option.splits)

lemma sum_true_weights_zip:
  "set ks \<subseteq> fst ` set RUBRIC_WEIGHTS \<Longrightarrow>
   sum_true_weights (zip ks bs) =
     Inr (raw_of (zip ks bs))"
  unfolding raw_of_def
proof (induction ks arbitrary: bs)
  case Nil
  show ?case by simp
next
  case (Cons k ks)
  show ?case
  proof (cases bs)
    case Nil
    then show ?thesis by simp
  next
    case (Cons b bs')
    with Cons.prems Cons.IH [of bs'] show ?thesis
      by (simp add: weight_get_known bind_err_def)
  qed
qed

lemma raw_zip_bounds:
  "\<forall>k \<in> set ks. 0 \<le> f k \<Longrightarrow>
   0 \<le> (\<Sum>(k, v) \<leftarrow> zip ks bs. if v then f k else (0::rat)) \<and>
   (\<Sum>(k, v) \<leftarrow> zip ks bs. if v then f k else 0) \<le> (\<Sum>k \<leftarrow> ks. f k)"
proof (induction ks arbitrary: bs)
  case Nil
  show ?case by simp
next
  case (Cons k ks)
  from Cons.prems have k: "0 \<le> f k"
    by simp
  from Cons.prems have rest: "0 \<le> sum_list (map f ks)"
    by (intro sum_list_nonneg) auto
  show ?case
  proof (cases bs)
    case Nil
    with k rest show ?thesis by simp
  next
    case (Cons b bs')
    with Cons.prems Cons.IH [of bs'] k show ?thesis
      by (auto intro: add_mono add_nonneg_nonneg)
  qed
qed

lemma raw_zip_mono:
  "\<forall>k \<in> set ks. 0 \<le> f k \<Longrightarrow>
   (\<Sum>(k, v) \<leftarrow> zip ks bs. if v then f k else (0::rat)) \<le>
   (\<Sum>(k, v) \<leftarrow> zip ks (bs[i := True]). if v then f k else 0)"
proof (induction ks arbitrary: bs i)
  case Nil
  show ?case by simp
next
  case (Cons k ks)
  show ?case
  proof (cases bs)
    case Nil
    then show ?thesis by simp
  next
    case (Cons b bs')
    with Cons.prems Cons.IH [of bs'] show ?thesis
      by (cases i) (auto intro: add_mono)
  qed
qed

lemma weights_nonneg: "\<forall>k \<in> set (map fst RUBRIC_WEIGHTS). 0 \<le> the (map_of RUBRIC_WEIGHTS k)"
  by (simp add: RUBRIC_WEIGHTS_def)

lemma max_score: "sum_list (map snd RUBRIC_WEIGHTS) = 49 / 5"
  by (simp add: RUBRIC_WEIGHTS_def)

lemma weights_by_name:
  "(\<Sum>k \<leftarrow> map fst RUBRIC_WEIGHTS. the (map_of RUBRIC_WEIGHTS k)) = 49 / 5"
  by (simp add: RUBRIC_WEIGHTS_def)

lemma build_checks_keys: "map fst (build_checks db inputs) = map fst RUBRIC_WEIGHTS"
  by (simp add: build_checks_def Let_def RUBRIC_WEIGHTS_def)

lemma zip_keys: "map fst chks = ks \<Longrightarrow> chks = zip ks (map snd chks)"
  by (auto simp: zip_map_fst_snd)

text \<open>
  The dictionary built by \<open>score_inputs\<close> holds one outcome for each of the ten checks,
  in the order of the rubric table.
\<close>

lemma build_checks_outcomes:
  "build_checks db inputs = checks_of_bools (map snd (build_checks db inputs)) \<and>
   length (map snd (build_checks db inputs)) = 10"
proof -
  have "length (map fst (build_checks db inputs)) = 10"
    unfolding build_checks_keys by (simp add: RUBRIC_WEIGHTS_def)
  then show ?thesis
    unfolding checks_of_bools_def using zip_keys [OF build_checks_keys, of db inputs] by simp
qed

lemma sum_true_weights_keys:
  assumes "map fst chks = map fst RUBRIC_WEIGHTS"
  shows "sum_true_weights chks = Inr (raw_of chks)"
proof -
  have "sum_true_weights (zip (map fst RUBRIC_WEIGHTS) (map snd chks)) =
        Inr (raw_of (zip (map fst RUBRIC_WEIGHTS) (map snd chks)))"
    by (rule sum_true_weights_zip) simp
  with zip_keys [OF assms] show ?thesis by simp
qed

lemma raw_of_bounds:
  assumes "map fst chks = map fst RUBRIC_WEIGHTS"
  shows "0 \<le> raw_of chks" and "raw_of chks \<le> 49 / 5"
proof -
  define cs where "cs = zip (map fst RUBRIC_WEIGHTS) (map snd chks)"
  have "0 \<le> raw_of cs \<and>
        raw_of cs \<le> (\<Sum>k \<leftarrow> map fst RUBRIC_WEIGHTS. the (map_of RUBRIC_WEIGHTS k))"
    unfolding raw_of_def cs_def by (rule raw_zip_bounds) (rule weights_nonneg)
  then have "0 \<le> raw_of cs \<and> raw_of cs \<le> 49 / 5"
    unfolding weights_by_name .
  moreover have "chks = cs"
    unfolding cs_def by (rule zip_keys [OF assms])
  ultimately show "0 \<le> raw_of chks" and "raw_of chks \<le> 49 / 5"
    by blast+
qed

lemma score_aggregation_keys:
  assumes "map fst chks = map fst RUBRIC_WEIGHTS"
  shows "score_aggregation chks = Inr (round1 (10 * raw_of chks / (49 / 5)))"
  by (simp add: score_aggregation_def sum_true_weights_keys [OF assms] max_score bind_err_def)

lemma check_get_known:
  "k \<in> fst ` set chks \<Longrightarrow> check_get chks k = Inr (the (map_of chks k))"
  by (auto simp: check_get_def map_of_eq_None_iff split: option.splits)

lemma suggest_if_not_total:
  "k \<in> fst ` set chks \<Longrightarrow> \<exists>out. suggest_if_not chks k msg sugs = Inr out"
  by (simp add: suggest_if_not_def check_get_known bind_err_def)

lemma suggest_if_elif_total:
  "k1 \<in> fst ` set chks \<Longrightarrow> k2 \<in> fst ` set chks \<Longrightarrow>
   \<exists>out. suggest_if_elif chks k1 msg1 k2 msg2 sugs = Inr out"
  by (simp add: suggest_if_elif_def check_get_known bind_err_def)

lemma build_suggestions_total:
  assumes "map fst chks = map fst RUBRIC_WEIGHTS"
  shows "\<exists>sugs. build_suggestions chks = Inr sugs"
proof -
  have keys: "fst ` set chks = set (map fst RUBRIC_WEIGHTS)"
    using assms by (metis set_map)
  have k: "''objective_present'' \<in> fst ` set chks" "''objective_quality'' \<in> fst ` set chks"
    "''context_present'' \<in> fst ` set chks"
    "''constraints_present'' \<in> fst ` set chks" "''constraints_quality'' \<in> fst ` set chks"
    "''examples_present'' \<in> fst ` set chks" "''examples_quality'' \<in> fst ` set chks"
    "''output_format_present'' \<in> fst ` set chks" "''format_quality'' \<in> fst ` set chks"
    "''ambiguity_low'' \<in> fst ` set chks"
    unfolding keys by (simp_all add: RUBRIC_WEIGHTS_def)
  obtain s1 where s1: "suggest_if_elif chks ''objective_present'' msg_objective_missing
      ''objective_quality'' msg_objective_vague [] = Inr s1"
    using suggest_if_elif_total k by blast
  obtain s2 where s2: "suggest_if_not chks ''context_present'' msg_context_missing s1 = Inr s2"
    using suggest_if_not_total k by blast
  obtain s3 where s3: "suggest_if_elif chks ''constraints_present'' msg_constraints_missing
      ''constraints_quality'' msg_constraints_loose s2 = Inr s3"
    using suggest_if_elif_total k by blast
  obtain s4 where s4: "suggest_if_elif chks ''examples_present'' msg_examples_missing
      ''examples_quality'' msg_examples_unlabelled s3 = Inr s4"
    using suggest_if_elif_total k by blast
  obtain s5 where s5: "suggest_if_elif chks ''output_format_present'' msg_format_missing
      ''format_quality'' msg_format_loose s4 = Inr s5"
    using suggest_if_elif_total k by blast
  obtain s6 where s6: "suggest_if_not chks ''ambiguity_low'' msg_ambiguity s5 = Inr s6"
    using suggest_if_not_total k by blast
  show ?thesis
    by (simp add: build_suggestions_def bind_err_def s1 s2 s3 s4 s5 s6)
qed

lemma score_inputs_result:
  "\<exists>sugs. build_suggestions (build_checks db inputs) = Inr sugs \<and>
     score_inputs db inputs =
       Inr \<lparr>score_out_of_10 = round1 (10 * raw_of (build_checks db inputs) / (49 / 5)),
            checks = build_checks db inputs, suggestions = sugs\<rparr>"
proof -
  obtain sugs where "build_suggestions (build_checks db inputs) = Inr sugs"
    using build_suggestions_total [OF build_checks_keys] by blast
  then show ?thesis
    by (simp add: score_inputs_def Let_def score_aggregation_keys [OF build_checks_keys]
        bind_err_def)
qed

lemma score_range:
  assumes "0 \<le> raw" and "raw \<le> 49 / 5"
  shows "0 \<le> round1 (10 * raw / (49 / 5))" and "round1 (10 * raw / (49 / 5)) \<le> 10"
proof -
  have "0 \<le> 10 * raw / (49 / 5)" using assms by simp
  from round1_mono [OF this] show "0 \<le> round1 (10 * raw / (49 / 5))"
    by (simp add: round1_0)
  have "10 * raw / (49 / 5) \<le> 10" using assms by simp
  from round1_mono [OF this] show "round1 (10 * raw / (49 / 5)) \<le> 10"
    by (simp add: round1_10)
qed

text \<open>
  C8: for every mapping (labels missing, mapped to the empty string or to \<open>None\<close>
  included) and every Unicode table, \<open>score_inputs\<close> returns a result: no lookup of
  a check or of a weight fails and the divisor is not zero. All functions of the model
  are total, so every call terminates.
\<close>

theorem audit_total: "\<exists>r. score_inputs db inputs = Inr r"
  using score_inputs_result [of db inputs] by blast

text \<open>
  C4: for every mapping the score returned lies between 0 and 10 and is a whole number
  of tenths.
\<close>

theorem score_in_range_one_decimal:
  "\<exists>r. score_inputs db inputs = Inr r \<and> 0 \<le> score_out_of_10 r \<and> score_out_of_10 r \<le> 10 \<and>
       (\<exists>n::int. score_out_of_10 r = of_int n / 10)"
proof -
  obtain sugs where r: "score_inputs db inputs =
       Inr \<lparr>score_out_of_10 = round1 (10 * raw_of (build_checks db inputs) / (49 / 5)),
            checks = build_checks db inputs, suggestions = sugs\<rparr>"
    using score_inputs_result [of db inputs] by blast
  note b = raw_of_bounds [OF build_checks_keys, of db inputs]
  show ?thesis
    unfolding r using score_range [OF b] round1_tenths by simp
qed

text \<open>
  C5: for every assignment of outcomes to the ten checks, setting one check that is
  false to true, the other nine unchanged, gives a score that is not smaller.
\<close>

theorem score_monotone_in_each_check:
  assumes "length bs = 10" and "i < 10" and "\<not> bs ! i"
  shows "\<exists>s s'. score_aggregation (checks_of_bools bs) = Inr s \<and>
           score_aggregation (checks_of_bools (bs[i := True])) = Inr s' \<and> s \<le> s'"
proof -
  have len: "length (map fst RUBRIC_WEIGHTS) = 10"
    by (simp add: RUBRIC_WEIGHTS_def)
  have k: "map fst (checks_of_bools cs) = map fst RUBRIC_WEIGHTS" if "length cs = 10" for cs
    using that len by (simp add: checks_of_bools_def)
  have "raw_of (checks_of_bools bs) \<le> raw_of (checks_of_bools (bs[i := True]))"
    unfolding raw_of_def checks_of_bools_def by (rule raw_zip_mono) (rule weights_nonneg)
  then have "10 * raw_of (checks_of_bools bs) / (49 / 5) \<le>
             10 * raw_of (checks_of_bools (bs[i := True])) / (49 / 5)"
    by simp
  from round1_mono [OF this] show ?thesis
    using assms(1) by (simp add: score_aggregation_keys k)
qed

theorem score_monotone_in_each_check_witness:
  "(\<exists>s s'. score_aggregation (checks_of_bools
        [True, False, True, False, False, False, True, False, False, True]) = Inr s \<and>
      score_aggregation (checks_of_bools
        ([True, False, True, False, False, False, True, False, False, True][1 := True])) = Inr s' \<and>
      s \<le> s') \<and>
   score_aggregation (checks_of_bools
        [True, False, True, False, False, False, True, False, False, True]) = Inr (46 / 10) \<and>
   score_aggregation (checks_of_bools
        [True, True, True, False, False, False, True, False, False, True]) = Inr (56 / 10)"
proof -
  have "\<exists>s s'. score_aggregation (checks_of_bools
        [True, False, True, False, False, False, True, False, False, True]) = Inr s \<and>
      score_aggregation (checks_of_bools
        ([True, False, True, False, False, False, True, False, False, True][1 := True])) = Inr s' \<and>
      s \<le> s'"
    by (rule score_monotone_in_each_check) simp_all
  moreover have "score_aggregation (checks_of_bools
        [True, False, True, False, False, False, True, False, False, True]) = Inr (46 / 10)"
    by code_simp
  moreover have "score_aggregation (checks_of_bools
        [True, True, True, False, False, False, True, False, False, True]) = Inr (56 / 10)"
    by code_simp
  ultimately show ?thesis by blast
qed

section \<open>Properties of the slots and the checks\<close>

lemma strip_all_space: "list_all (str_isspace db) w \<Longrightarrow> strip db w = []"
proof -
  assume "list_all (str_isspace db) w"
  then have w: "dropWhile (str_isspace db) w = []"
    by (simp add: dropWhile_eq_Nil_conv list_all_iff)
  show ?thesis
    unfolding strip_def w by simp
qed

lemma checks_of_score_inputs:
  "\<exists>r. score_inputs db inputs = Inr r \<and> checks r = build_checks db inputs"
  using score_inputs_result [of db inputs] by auto

text \<open>
  C9: a value under \<open>Constraints\<close> that is not empty and consists of whitespace only is
  truthy, so the \<open>or\<close> chain stops at it: the slot is empty after \<open>strip\<close> and
  \<open>constraints_present\<close> is false, whatever \<open>Capacity/Constraints\<close> and
  \<open>Restrictions\<close> hold. In the same way \<open>Context\<close> blocks \<open>Insight/Context\<close>.
\<close>

theorem whitespace_alias_blocks_fallback:
  "(inputs (pystr_of ''Constraints'') = Some (PyStr w) \<and> w \<noteq> [] \<and> list_all (str_isspace db) w
      \<longrightarrow> cons_of db inputs = [] \<and>
          (\<exists>r. score_inputs db inputs = Inr r \<and>
                map_of (checks r) ''constraints_present'' = Some False)) \<and>
   (inputs (pystr_of ''Context'') = Some (PyStr w') \<and> w' \<noteq> [] \<and> list_all (str_isspace db) w'
      \<longrightarrow> ctx_of db inputs = [] \<and>
          (\<exists>r. score_inputs db inputs = Inr r \<and>
                map_of (checks r) ''context_present'' = Some False))"
proof (intro conjI impI)
  assume a: "inputs (pystr_of ''Constraints'') = Some (PyStr w) \<and> w \<noteq> [] \<and>
             list_all (str_isspace db) w"
  then show c: "cons_of db inputs = []"
    by (simp add: cons_of_def get_or_def strip_all_space)
  obtain r where r: "score_inputs db inputs = Inr r" "checks r = build_checks db inputs"
    using checks_of_score_inputs by blast
  have "map_of (build_checks db inputs) ''constraints_present'' = Some False"
    using c by (simp add: build_checks_def Let_def)
  with r show "\<exists>r. score_inputs db inputs = Inr r \<and>
                map_of (checks r) ''constraints_present'' = Some False"
    by simp
next
  assume a: "inputs (pystr_of ''Context'') = Some (PyStr w') \<and> w' \<noteq> [] \<and>
             list_all (str_isspace db) w'"
  then show c: "ctx_of db inputs = []"
    by (simp add: ctx_of_def get_or_def strip_all_space)
  obtain r where r: "score_inputs db inputs = Inr r" "checks r = build_checks db inputs"
    using checks_of_score_inputs by blast
  have "map_of (build_checks db inputs) ''context_present'' = Some False"
    using c by (simp add: build_checks_def Let_def)
  with r show "\<exists>r. score_inputs db inputs = Inr r \<and>
                map_of (checks r) ''context_present'' = Some False"
    by simp
qed

theorem whitespace_alias_blocks_fallback_witness:
  "cons_of latin1_db
     (Map.empty(pystr_of ''Constraints'' \<mapsto> PyStr [32, 9],
                pystr_of ''Restrictions'' \<mapsto> PyStr (pystr_of ''cite sources''),
                pystr_of ''Context'' \<mapsto> PyStr [32],
                pystr_of ''Insight/Context'' \<mapsto> PyStr (pystr_of ''Retail''))) = [] \<and>
   ctx_of latin1_db
     (Map.empty(pystr_of ''Constraints'' \<mapsto> PyStr [32, 9],
                pystr_of ''Restrictions'' \<mapsto> PyStr (pystr_of ''cite sources''),
                pystr_of ''Context'' \<mapsto> PyStr [32],
                pystr_of ''Insight/Context'' \<mapsto> PyStr (pystr_of ''Retail''))) = [] \<and>
   cons_of latin1_db
     (Map.empty(pystr_of ''Restrictions'' \<mapsto> PyStr (pystr_of ''cite sources''),
                pystr_of ''Context'' \<mapsto> PyStr [32],
                pystr_of ''Insight/Context'' \<mapsto> PyStr (pystr_of ''Retail'')))
     = pystr_of ''cite sources''"
proof -
  let ?inputs = "Map.empty(pystr_of ''Constraints'' \<mapsto> PyStr [32, 9],
                pystr_of ''Restrictions'' \<mapsto> PyStr (pystr_of ''cite sources''),
                pystr_of ''Context'' \<mapsto> PyStr [32],
                pystr_of ''Insight/Context'' \<mapsto> PyStr (pystr_of ''Retail''))"
  have 1: "?inputs (pystr_of ''Constraints'') = Some (PyStr [32, 9]) \<and> [32, 9] \<noteq> ([]::pystr) \<and>
           list_all (str_isspace latin1_db) [32, 9]"
    by (simp add: pystr_of_def latin1_db_def cpython_isspace_def)
  have 2: "?inputs (pystr_of ''Context'') = Some (PyStr [32]) \<and> [32] \<noteq> ([]::pystr) \<and>
           list_all (str_isspace latin1_db) [32]"
    by (simp add: pystr_of_def latin1_db_def cpython_isspace_def)
  note inst = whitespace_alias_blocks_fallback [of ?inputs "[32, 9]" latin1_db "[32]"]
  from inst 1 have "cons_of latin1_db ?inputs = []" by blast
  moreover from inst 2 have "ctx_of latin1_db ?inputs = []" by blast
  moreover have "cons_of latin1_db
     (Map.empty(pystr_of ''Restrictions'' \<mapsto> PyStr (pystr_of ''cite sources''),
                pystr_of ''Context'' \<mapsto> PyStr [32],
                pystr_of ''Insight/Context'' \<mapsto> PyStr (pystr_of ''Retail'')))
     = pystr_of ''cite sources''"
    by (simp add: cons_of_def get_or_def strip_def pystr_of_def latin1_db_def cpython_isspace_def)
  ultimately show ?thesis by blast
qed

lemma latin1_lower_ascii: "lower_agrees_on_ascii latin1_db"
  by (auto simp: lower_agrees_on_ascii_def latin1_db_def latin1_lower_def ascii_lower_def
        list_all_iff)

lemma no_vague_term_in_space:
  assumes "lower_agrees_on_ascii db"
  shows "\<not> has_any db (pystr_of '' '') vague_terms"
proof -
  have l: "str_lower db s = map ascii_lower s" if "list_all (\<lambda>c. c < 128) s" for s
    using assms that by (simp add: lower_agrees_on_ascii_def)
  show ?thesis
    by (simp add: has_any_def vague_terms_def Let_def pystr_of_def l ascii_lower_def
        sublist_Cons_right)
qed

lemma has_any_Nil: "has_any db [] keywords = False"
  by (simp add: has_any_def)

lemma len_tokens_Nil: "len_tokens db [] = 0"
  by (simp add: len_tokens_def)

lemma count_any_Nil: "count_any db [] keywords = 0"
  by (simp add: count_any_def)

lemma score_only_ambiguity_low:
  "score_aggregation
     [(''objective_present'', False), (''context_present'', False),
      (''constraints_present'', False), (''examples_present'', False),
      (''output_format_present'', False), (''objective_quality'', False),
      (''constraints_quality'', False), (''examples_quality'', False),
      (''format_quality'', False), (''ambiguity_low'', True)] = Inr 1"
  by code_simp

lemma suggestions_only_ambiguity_low:
  "build_suggestions
     [(''objective_present'', False), (''context_present'', False),
      (''constraints_present'', False), (''examples_present'', False),
      (''output_format_present'', False), (''objective_quality'', False),
      (''constraints_quality'', False), (''examples_quality'', False),
      (''format_quality'', False), (''ambiguity_low'', True)] =
   Inr [msg_objective_missing, msg_context_missing, msg_constraints_missing,
        msg_examples_missing, msg_format_missing]"
  by (simp add: build_suggestions_def suggest_if_elif_def suggest_if_not_def check_get_def
        bind_err_def)

lemma ambiguity_message_differs:
  "msg_ambiguity \<notin> set [msg_objective_missing, msg_context_missing,
     msg_constraints_missing, msg_examples_missing, msg_format_missing]"
  by (simp add: msg_ambiguity_def msg_objective_missing_def msg_context_missing_def
        msg_constraints_missing_def msg_examples_missing_def msg_format_missing_def
        pystr_of_def)

text \<open>
  C2, amended: when all five slots are empty, the five presence checks are false, the
  four quality checks \<open>objective_quality\<close>, \<open>constraints_quality\<close>,
  \<open>examples_quality\<close> and \<open>format_quality\<close> are false, the fifth quality check
  \<open>ambiguity_low\<close> is true, and the suggestions are the five messages for a missing
  slot, in the order objective, context, constraints, examples, output format; the
  message on ambiguity is not among them. (The table for lower case is assumed to agree
  with \<open>str.lower\<close> on ASCII text.)
\<close>

theorem audit_all_slots_empty:
  assumes "lower_agrees_on_ascii db"
    and "obj_of db inputs = []" and "ctx_of db inputs = []" and "cons_of db inputs = []"
    and "ex_of db inputs = []" and "fmt_of db inputs = []"
  shows "score_inputs db inputs =
     Inr \<lparr>score_out_of_10 = 1,
          checks =
            [(''objective_present'', False), (''context_present'', False),
             (''constraints_present'', False), (''examples_present'', False),
             (''output_format_present'', False), (''objective_quality'', False),
             (''constraints_quality'', False), (''examples_quality'', False),
             (''format_quality'', False), (''ambiguity_low'', True)],
          suggestions =
            [msg_objective_missing, msg_context_missing, msg_constraints_missing,
             msg_examples_missing, msg_format_missing]\<rparr> \<and>
     msg_ambiguity \<notin> set [msg_objective_missing, msg_context_missing,
       msg_constraints_missing, msg_examples_missing, msg_format_missing]"
proof -
  have "build_checks db inputs =
      [(''objective_present'', False), (''context_present'', False),
       (''constraints_present'', False), (''examples_present'', False),
       (''output_format_present'', False), (''objective_quality'', False),
       (''constraints_quality'', False), (''examples_quality'', False),
       (''format_quality'', False), (''ambiguity_low'', True)]"
    using no_vague_term_in_space [OF assms(1)]
    by (simp add: build_checks_def Let_def assms(2-6) has_any_Nil len_tokens_Nil count_any_Nil)
  then show ?thesis
    using ambiguity_message_differs
    by (simp add: score_inputs_def Let_def bind_err_def score_only_ambiguity_low
          suggestions_only_ambiguity_low)
qed

theorem audit_all_slots_empty_witness:
  "score_inputs latin1_db (Map.empty(pystr_of ''Objective'' \<mapsto> PyStr [32, 10],
                                    pystr_of ''Context'' \<mapsto> PyNone,
                                    pystr_of ''Examples'' \<mapsto> PyStr [])) =
     Inr \<lparr>score_out_of_10 = 1,
          checks =
            [(''objective_present'', False), (''context_present'', False),
             (''constraints_present'', False), (''examples_present'', False),
             (''output_format_present'', False), (''objective_quality'', False),
             (''constraints_quality'', False), (''examples_quality'', False),
             (''format_quality'', False), (''ambiguity_low'', True)],
          suggestions =
            [msg_objective_missing, msg_context_missing, msg_constraints_missing,
             msg_examples_missing, msg_format_missing]\<rparr> \<and>
     msg_ambiguity \<notin> set [msg_objective_missing, msg_context_missing,
       msg_constraints_missing, msg_examples_missing, msg_format_missing]"
  by (rule audit_all_slots_empty [OF latin1_lower_ascii])
     (simp_all add: obj_of_def ctx_of_def cons_of_def ex_of_def fmt_of_def get_or_def strip_def
        pystr_of_def latin1_db_def cpython_isspace_def)

text \<open>
  Not all five quality checks are false when the slots are empty: for the empty mapping
  the outcomes of the five quality checks are false four times and true for
  \<open>ambiguity_low\<close>.
\<close>

theorem quality_checks_empty_counterexample:
  "score_inputs latin1_db Map.empty =
     Inr \<lparr>score_out_of_10 = 1,
          checks =
            [(''objective_present'', False), (''context_present'', False),
             (''constraints_present'', False), (''examples_present'', False),
             (''output_format_present'', False), (''objective_quality'', False),
             (''constraints_quality'', False), (''examples_quality'', False),
             (''format_quality'', False), (''ambiguity_low'', True)],
          suggestions =
            [msg_objective_missing, msg_context_missing, msg_constraints_missing,
             msg_examples_missing, msg_format_missing]\<rparr> \<and>
   map (map_of
          [(''objective_present'', False), (''context_present'', False),
           (''constraints_present'', False), (''examples_present'', False),
           (''output_format_present'', False), (''objective_quality'', False),
           (''constraints_quality'', False), (''examples_quality'', False),
           (''format_quality'', False), (''ambiguity_low'', True)]) quality_checks =
     [Some False, Some False, Some False, Some False, Some True] \<and>
   quality_checks = drop 5 (map fst RUBRIC_WEIGHTS)"
  by code_simp


section \<open>The score as a weighted fraction\<close>

lemma ten_outcomes:
  assumes "map fst chks = map fst RUBRIC_WEIGHTS"
  shows "\<exists>b1 b2 b3 b4 b5 b6 b7 b8 b9 b10. chks =
     [(''objective_present'', b1), (''context_present'', b2), (''constraints_present'', b3),
      (''examples_present'', b4), (''output_format_present'', b5), (''objective_quality'', b6),
      (''constraints_quality'', b7), (''examples_quality'', b8), (''format_quality'', b9),
      (''ambiguity_low'', b10)]"
  using assms by (auto simp: RUBRIC_WEIGHTS_def map_eq_Cons_conv)

lemma true_weight_sum_keys:
  assumes "map fst chks = map fst RUBRIC_WEIGHTS"
  shows "true_weight_sum chks = raw_of chks"
proof -
  from ten_outcomes [OF assms] obtain b1 b2 b3 b4 b5 b6 b7 b8 b9 b10 where "chks =
     [(''objective_present'', b1), (''context_present'', b2), (''constraints_present'', b3),
      (''examples_present'', b4), (''output_format_present'', b5), (''objective_quality'', b6),
      (''constraints_quality'', b7), (''examples_quality'', b8), (''format_quality'', b9),
      (''ambiguity_low'', b10)]"
    by blast
  then show ?thesis
    by (simp add: true_weight_sum_def raw_of_def RUBRIC_WEIGHTS_def)
qed

text \<open>
  C1, amended: the score is \<open>round(10 * s / t, 1)\<close>, where \<open>s\<close> is the sum of the
  weights of the checks whose outcome is true and \<open>t\<close> the sum of the ten weights of
  the rubric table; the weights are the ten constants of the table, and their total is
  9.8.
\<close>

theorem score_is_weighted_fraction:
  "\<exists>r. score_inputs db inputs = Inr r \<and>
       score_out_of_10 r =
         round1 (10 * true_weight_sum (checks r) / sum_list (map snd RUBRIC_WEIGHTS)) \<and>
       RUBRIC_WEIGHTS =
         [(''objective_present'', 15 / 10), (''context_present'', 10 / 10),
          (''constraints_present'', 10 / 10), (''examples_present'', 8 / 10),
          (''output_format_present'', 7 / 10), (''objective_quality'', 12 / 10),
          (''constraints_quality'', 10 / 10), (''examples_quality'', 8 / 10),
          (''format_quality'', 8 / 10), (''ambiguity_low'', 10 / 10)] \<and>
       sum_list (map snd RUBRIC_WEIGHTS) = 98 / 10"
proof -
  obtain sugs where r: "score_inputs db inputs =
       Inr \<lparr>score_out_of_10 = round1 (10 * raw_of (build_checks db inputs) / (49 / 5)),
            checks = build_checks db inputs, suggestions = sugs\<rparr>"
    using score_inputs_result [of db inputs] by blast
  have "RUBRIC_WEIGHTS =
         [(''objective_present'', 15 / 10), (''context_present'', 10 / 10),
          (''constraints_present'', 10 / 10), (''examples_present'', 8 / 10),
          (''output_format_present'', 7 / 10), (''objective_quality'', 12 / 10),
          (''constraints_quality'', 10 / 10), (''examples_quality'', 8 / 10),
          (''format_quality'', 8 / 10), (''ambiguity_low'', 10 / 10)]"
    by (simp add: RUBRIC_WEIGHTS_def)
  moreover have "sum_list (map snd RUBRIC_WEIGHTS) = 98 / 10"
    by (simp add: max_score)
  ultimately show ?thesis
    unfolding r by (simp add: true_weight_sum_keys [OF build_checks_keys] max_score)
qed

text \<open>
  The total of the weights is not 10.3: for the mapping that holds only the objective
  \<open>x\<close> the score is 2.6, where a divisor of 10.3 would give 2.4.
\<close>

theorem rubric_total_counterexample:
  "sum_list (map snd RUBRIC_WEIGHTS) \<noteq> 103 / 10 \<and>
   score_inputs latin1_db (Map.empty(pystr_of ''Objective'' \<mapsto> PyStr (pystr_of ''x''))) =
     Inr \<lparr>score_out_of_10 = 26 / 10,
          checks =
            [(''objective_present'', True), (''context_present'', False),
             (''constraints_present'', False), (''examples_present'', False),
             (''output_format_present'', False), (''objective_quality'', False),
             (''constraints_quality'', False), (''examples_quality'', False),
             (''format_quality'', False), (''ambiguity_low'', True)],
          suggestions =
            [msg_objective_vague, msg_context_missing, msg_constraints_missing,
             msg_examples_missing, msg_format_missing]\<rparr> \<and>
   round1 (10 * true_weight_sum
            [(''objective_present'', True), (''context_present'', False),
             (''constraints_present'', False), (''examples_present'', False),
             (''output_format_present'', False), (''objective_quality'', False),
             (''constraints_quality'', False), (''examples_quality'', False),
             (''format_quality'', False), (''ambiguity_low'', True)] / (103 / 10)) = 24 / 10"
  by code_simp

text \<open>
  The exact quotient is never close to a tie of the rounding: ten times its value stays
  at least 1/98 away from every half integer. The error of the binary floating point
  operations of the source is smaller by many orders of magnitude, so the rounding there
  selects the same multiple of one tenth as the exact arithmetic of the model.
\<close>

lemma tenths_zip:
  "\<forall>k \<in> set ks. f k * 10 \<in> \<int> \<Longrightarrow>
   (\<Sum>(k, v) \<leftarrow> zip ks bs. if v then f k else (0::rat)) * 10 \<in> \<int>"
proof (induction ks arbitrary: bs)
  case Nil
  show ?case by simp
next
  case (Cons k ks)
  show ?case
  proof (cases bs)
    case Nil
    then show ?thesis by simp
  next
    case (Cons b bs')
    with Cons.prems Cons.IH [of bs'] show ?thesis
      by (simp add: distrib_right)
  qed
qed

lemma raw_of_tenths:
  assumes "map fst chks = map fst RUBRIC_WEIGHTS"
  shows "raw_of chks * 10 \<in> \<int>"
proof -
  have "raw_of (zip (map fst RUBRIC_WEIGHTS) (map snd chks)) * 10 \<in> \<int>"
    unfolding raw_of_def by (rule tenths_zip) (simp add: RUBRIC_WEIGHTS_def)
  with zip_keys [OF assms] show ?thesis by simp
qed

lemma score_clear_of_ties:
  assumes "map fst chks = map fst RUBRIC_WEIGHTS"
  shows "1 / 98 \<le> \<bar>10 * (10 * raw_of chks / (49 / 5)) - (of_int n + 1 / 2)\<bar>"
proof -
  from raw_of_tenths [OF assms] obtain m :: int where m: "raw_of chks * 10 = of_int m"
    by (auto elim: Ints_cases)
  define z where "z = 100 * m - 98 * n - 49"
  have "odd z" by (simp add: z_def)
  then have "z \<noteq> 0" by auto
  then have "1 \<le> \<bar>z\<bar>" by simp
  then have "(1::rat) \<le> \<bar>of_int z\<bar>"
    by (metis of_int_1 of_int_abs of_int_le_iff)
  then have far: "1 / 98 \<le> \<bar>of_int z / 98 :: rat\<bar>"
    by simp
  have "raw_of chks = of_int m / 10"
    using m by (simp add: field_simps)
  then have e: "10 * (10 * raw_of chks / (49 / 5)) - (of_int n + 1 / 2) = of_int z / 98"
    by (simp add: z_def field_simps)
  show ?thesis
    unfolding e by (rule far)
qed

section \<open>The marker for context and response\<close>

text \<open>
  What the source computes for \<open>examples_quality\<close>, with its own marker list.
\<close>

lemma examples_quality_by_source_markers:
  "map_of (build_checks db inputs) ''examples_quality'' =
     Some (has_any db (ex_of db inputs) example_markers \<or>
           (2 \<le> count_any db (ex_of db inputs) [pystr_of '':''] \<and>
            12 \<le> len_tokens db (ex_of db inputs)))"
  by (simp add: build_checks_def Let_def)

text \<open>
  C3: evaluation of the auditor on the examples text \<open>context\<close>, space, U+2192, space,
  \<open>response\<close>. The text contains the fifth marker of the specification, but the
  marker list of the source holds other code points in place of the arrow, the text has
  no colon, and \<open>examples_quality\<close> is false.
\<close>

theorem examples_arrow_marker_unrecognised:
  "score_inputs latin1_db
     (Map.empty(pystr_of ''Examples'' \<mapsto>
        PyStr (pystr_of ''context '' @ [8594] @ pystr_of '' response''))) =
     Inr \<lparr>score_out_of_10 = 18 / 10,
          checks =
            [(''objective_present'', False), (''context_present'', False),
             (''constraints_present'', False), (''examples_present'', True),
             (''output_format_present'', False), (''objective_quality'', False),
             (''constraints_quality'', False), (''examples_quality'', False),
             (''format_quality'', False), (''ambiguity_low'', True)],
          suggestions =
            [msg_objective_missing, msg_context_missing, msg_constraints_missing,
             msg_examples_unlabelled, msg_format_missing]\<rparr> \<and>
   has_any latin1_db (pystr_of ''context '' @ [8594] @ pystr_of '' response'')
     spec_example_markers"
  by code_simp


end
